theory Spec2Isabelle
  imports Main "HOL-Library.Word" "HOL-Library.AList" "HOL-Library.List_Lexorder" "HOL-Library.Char_ord"
begin

unbundle bit_operations_syntax

section \<open>Data model\<close>

text \<open>
  A shallow embedding of the Bitcask engine of \<^verbatim>\<open>engine/engine.go\<close> and
  \<^verbatim>\<open>engine/file_entry.go\<close>. The engine is single-threaded here: every public
  method holds the mutex for its whole body, so the mutex is not modelled. Wall-clock
  readings (\<^verbatim>\<open>time.Now().Unix()\<close>) are explicit arguments of the operation that
  takes them. File sizes, offsets and timestamps are Go \<^verbatim>\<open>int64\<close>/\<^verbatim>\<open>uint64\<close>
  values that the code only compares and adds to lengths of byte slices in memory; they are
  modelled as \<^typ>\<open>int\<close> and \<^typ>\<open>nat\<close>, the 8-byte length prefix as a
  \<^typ>\<open>64 word\<close>.
\<close>

type_synonym byte = "8 word"

text \<open>\<^verbatim>\<open>type FileEntry struct\<close> of file\_entry.go.\<close>

record FileEntry =
  Crc :: "32 word"
  Tstamp :: int
  Ksz :: "32 word"
  ValueSz :: "32 word"
  Key :: string
  Value :: string
  IsTombstone :: bool

text \<open>
  A path \<^verbatim>\<open>filepath.Join(directory, name)\<close>: the data directory and the entry's name
  in it.
\<close>

datatype path = Join string string

text \<open>
  Modelled from the spec: the struct \<^verbatim>\<open>KeyDir\<close> of keydir.go, which is not among the
  sources. Its fields are the spec's locator (file path, record offset, record total size,
  timestamp) under the names engine.go gives them: \<^verbatim>\<open>FileID\<close>, \<^verbatim>\<open>ValueSz\<close>
  (uint64, here \<open>KdValueSz\<close>), \<^verbatim>\<open>ValuePos\<close> (int64) and \<^verbatim>\<open>Tstamp\<close>
  (int64, here \<open>KdTstamp\<close>).
\<close>

record KeyDir =
  FileID :: path
  KdValueSz :: nat
  ValuePos :: int
  KdTstamp :: int

section \<open>The host: file system and library functions\<close>

text \<open>
  The file system is an association list from paths to nodes; a data directory is the set
  of paths \<open>Join d n\<close> with the same \<open>d\<close>. Input and output never fail for reasons
  outside the state (no full disk, no permissions).
\<close>

datatype node = Dir | File "byte list"

type_synonym filesystem = "(path \<times> node) list"

text \<open>
  An open \<^verbatim>\<open>*os.File\<close>: its name, the offset of its file description and whether
  \<^verbatim>\<open>Close\<close> has been called on it.
\<close>

record os_File =
  Name :: path
  Offset :: nat
  Closed :: bool

datatype error =
    ErrInvalid
  | ErrClosed
  | ErrNotExist
  | ErrIsDir
  | ErrNegativeOffset
  | EOF
  | ErrUnexpectedEOF
  | ErrGob
  | KeyNotFound
  | FetchFailed error
  | KeyDeleted string
  | OpenFailed path error
  | InvalidPayloadLength
  | ReadBufferFailed error
  | DeserializeFailed error
  | InsertFailed error
  | NotFoundForDeletion string
  | PutTombstoneFailed error
  | EncodeFailed error
  | StatFailed error
  | RolloverFailed error
  | SeekFailed error
  | WritePrefixFailed error
  | WritePayloadFailed error
  | WriteSizeMismatch nat nat
  | CloseOldFailed error
  | OpenNewFailed path error
  | ProcessFileFailed string error
  | ReadPrefixFailed error
  | ReadPayloadFailed error
  | DeserializeAtFailed error
  | Fatal error

text \<open>
  The functions of Go's standard library whose code is outside the repository are
  parameters of the model: the gob encoder and decoder of a \<^verbatim>\<open>FileEntry\<close> (each call
  of the engine uses a fresh encoder or decoder, so they are functions of their argument)
  and the CRC-32 checksum of \<^verbatim>\<open>hash/crc32\<close>.
\<close>

record stdlib =
  gob_Encode :: "FileEntry \<Rightarrow> byte list option"
  gob_Decode :: "byte list \<Rightarrow> FileEntry option"
  crc32_IEEE :: "string \<Rightarrow> 32 word"

text \<open>
  \<^verbatim>\<open>os.OpenFile(p, os.O_APPEND|os.O_CREATE|os.O_WRONLY, 0644)\<close>: the file is created
  empty when it does not exist and is left as it is when it does; the new file description
  starts at offset 0 in both cases.
\<close>

definition os_OpenFile :: "filesystem \<Rightarrow> path \<Rightarrow> error + (os_File \<times> filesystem)" where
  "os_OpenFile fs p =
     (case map_of fs p of
        None \<Rightarrow> Inr (\<lparr>Name = p, Offset = 0, Closed = False\<rparr>, fs @ [(p, File [])])
      | Some (File _) \<Rightarrow> Inr (\<lparr>Name = p, Offset = 0, Closed = False\<rparr>, fs)
      | Some Dir \<Rightarrow> Inl ErrIsDir)"

text \<open>\<^verbatim>\<open>f.Stat()\<close>, reduced to the size it reports; \<open>None\<close> is the nil file.\<close>

definition File_Stat :: "filesystem \<Rightarrow> os_File option \<Rightarrow> error + int" where
  "File_Stat fs fo =
     (case fo of
        None \<Rightarrow> Inl ErrInvalid
      | Some f \<Rightarrow>
          if Closed f then Inl ErrClosed
          else (case map_of fs (Name f) of
                  Some (File bs) \<Rightarrow> Inr (int (length bs))
                | Some Dir \<Rightarrow> Inl ErrIsDir
                | None \<Rightarrow> Inl ErrNotExist))"

text \<open>\<^verbatim>\<open>f.Seek(0, io.SeekCurrent)\<close>: the offset of the file description.\<close>

definition File_Seek :: "os_File \<Rightarrow> error + int" where
  "File_Seek f = (if Closed f then Inl ErrClosed else Inr (int (Offset f)))"

text \<open>
  \<^verbatim>\<open>f.Write(b)\<close> on a file opened with \<^verbatim>\<open>O_APPEND\<close>: the bytes go to the end
  of the file whatever the offset was, and the offset is then the new end of the file.
\<close>

definition File_Write :: "filesystem \<Rightarrow> os_File \<Rightarrow> byte list \<Rightarrow> error + (nat \<times> os_File \<times> filesystem)" where
  "File_Write fs f b =
     (if Closed f then Inl ErrClosed
      else (case map_of fs (Name f) of
              Some (File old) \<Rightarrow>
                Inr (length b, f\<lparr>Offset := length old + length b\<rparr>,
                     AList.update (Name f) (File (old @ b)) fs)
            | Some Dir \<Rightarrow> Inl ErrIsDir
            | None \<Rightarrow> Inl ErrNotExist))"

definition File_Close :: "os_File \<Rightarrow> error + os_File" where
  "File_Close f = (if Closed f then Inl ErrClosed else Inr (f\<lparr>Closed := True\<rparr>))"

text \<open>\<^verbatim>\<open>os.Open(p)\<close>, read-only: the node that the reads will see.\<close>

definition os_Open :: "filesystem \<Rightarrow> path \<Rightarrow> error + node" where
  "os_Open fs p = (case map_of fs p of None \<Rightarrow> Inl ErrNotExist | Some nd \<Rightarrow> Inr nd)"

text \<open>
  \<^verbatim>\<open>file.ReadAt(buf, off)\<close> with \<open>len(buf) = n\<close>: a negative offset is refused, an
  empty buffer reads nothing, and a read that cannot fill the buffer returns
  \<^verbatim>\<open>io.EOF\<close>.
\<close>

definition File_ReadAt :: "node \<Rightarrow> nat \<Rightarrow> int \<Rightarrow> error + byte list" where
  "File_ReadAt nd n off =
     (if off < 0 then Inl ErrNegativeOffset
      else if n = 0 then Inr []
      else (case nd of
              Dir \<Rightarrow> Inl ErrIsDir
            | File bs \<Rightarrow>
                if nat off + n \<le> length bs then Inr (take n (drop (nat off) bs))
                else Inl EOF))"

text \<open>
  \<^verbatim>\<open>os.ReadDir(dir)\<close>: the entries of the directory as (name, is-directory), sorted
  by name.
\<close>

definition os_ReadDir :: "filesystem \<Rightarrow> string \<Rightarrow> (string \<times> bool) list" where
  "os_ReadDir fs dir =
     sort_key fst
       (List.map_filter
          (\<lambda>(p, nd). case p of Join d n \<Rightarrow> if d = dir then Some (n, nd = Dir) else None) fs)"

text \<open>\<^verbatim>\<open>binary.BigEndian.PutUint64\<close> and \<^verbatim>\<open>binary.BigEndian.Uint64\<close>.\<close>

definition PutUint64 :: "64 word \<Rightarrow> byte list" where
  "PutUint64 v =
     [ucast (drop_bit 56 v), ucast (drop_bit 48 v), ucast (drop_bit 40 v),
      ucast (drop_bit 32 v), ucast (drop_bit 24 v), ucast (drop_bit 16 v),
      ucast (drop_bit 8 v), ucast v]"

fun Uint64 :: "byte list \<Rightarrow> 64 word" where
  "Uint64 (b0 # b1 # b2 # b3 # b4 # b5 # b6 # b7 # _) =
     ucast b7 OR push_bit 8 (ucast b6) OR push_bit 16 (ucast b5) OR
     push_bit 24 (ucast b4) OR push_bit 32 (ucast b3) OR push_bit 40 (ucast b2) OR
     push_bit 48 (ucast b1) OR push_bit 56 (ucast b0)"
| "Uint64 _ = 0"

text \<open>\<^verbatim>\<open>strings.HasSuffix\<close> and \<^verbatim>\<open>strings.TrimSuffix\<close>.\<close>

definition HasSuffix :: "string \<Rightarrow> string \<Rightarrow> bool" where
  "HasSuffix s suffix =
     (length suffix \<le> length s \<and> drop (length s - length suffix) s = suffix)"

definition TrimSuffix :: "string \<Rightarrow> string \<Rightarrow> string" where
  "TrimSuffix s suffix =
     (if HasSuffix s suffix then take (length s - length suffix) s else s)"

text \<open>\<^verbatim>\<open>fmt.Sprintf("%d", i)\<close>: the decimal digits, after a minus sign when negative.\<close>

fun digits :: "nat \<Rightarrow> string" where
  "digits n =
     (if n < 10 then [char_of (48 + n)]
      else digits (n div 10) @ [char_of (48 + n mod 10)])"

declare digits.simps [simp del]

definition Sprintf_d :: "int \<Rightarrow> string" where
  "Sprintf_d i = (if i < 0 then CHR ''-'' # digits (nat (- i)) else digits (nat i))"

text \<open>
  \<^verbatim>\<open>strconv.ParseInt(s, 10, 64)\<close>, \<open>None\<close> for either of its errors (syntax, range):
  an optional sign, then decimal digits only, and a value that fits 64 signed bits.
\<close>

fun parse_digits :: "string \<Rightarrow> nat \<Rightarrow> nat option" where
  "parse_digits [] acc = Some acc"
| "parse_digits (c # cs) acc =
     (if CHR ''0'' \<le> c \<and> c \<le> CHR ''9''
      then parse_digits cs (10 * acc + (of_char c - 48))
      else None)"

definition ParseInt :: "string \<Rightarrow> int option" where
  "ParseInt s =
     (case s of
        [] \<Rightarrow> None
      | c # cs \<Rightarrow>
          let neg = (c = CHR ''-'');
              s' = (if c = CHR ''+'' \<or> c = CHR ''-'' then cs else s)
          in if s' = [] then None
             else (case parse_digits s' 0 of
                     None \<Rightarrow> None
                   | Some un \<Rightarrow>
                       if neg then (if un > 2 ^ 63 then None else Some (- int un))
                       else (if un \<ge> 2 ^ 63 then None else Some (int un))))"

text \<open>
  \<^verbatim>\<open>sort.Slice\<close>: for at most twelve elements Go runs this insertion sort (each
  element sinks towards the front while it is less than its left neighbour); for
  longer slices it runs a pattern-defeating quicksort, which returns the same list
  whenever the comparison is a strict total order on the elements. \<open>sink\<close> works on the
  sorted prefix in reverse.
\<close>

primrec sink :: "('a \<Rightarrow> 'a \<Rightarrow> bool) \<Rightarrow> 'a \<Rightarrow> 'a list \<Rightarrow> 'a list" where
  "sink lt x [] = [x]"
| "sink lt x (y # ys) = (if lt x y then y # sink lt x ys else x # y # ys)"

definition sort_Slice :: "('a \<Rightarrow> 'a \<Rightarrow> bool) \<Rightarrow> 'a list \<Rightarrow> 'a list" where
  "sort_Slice lt xs = rev (foldl (\<lambda>done x. sink lt x done) [] xs)"

section \<open>The engine\<close>

text \<open>\<^verbatim>\<open>type BitcaskEngine struct\<close>; \<open>ActiveFile = None\<close> is the nil pointer.\<close>

record BitcaskEngine =
  Keydir :: "string \<rightharpoonup> KeyDir"
  ActiveFile :: "os_File option"
  ActiveDir :: string
  MaxFileSize :: int

text \<open>The segment name \<^verbatim>\<open>fmt.Sprintf("%d.data", time.Now().Unix())\<close> at clock reading \<open>now\<close>.\<close>

definition segment_name :: "int \<Rightarrow> string" where
  "segment_name now = Sprintf_d now @ ''.data''"

text \<open>
  \<^verbatim>\<open>NewFileEntry\<close>, with the clock reading \<open>tstamp\<close>. It returns no error
  in any case, so the model returns the entry.
\<close>

definition NewFileEntry :: "stdlib \<Rightarrow> int \<Rightarrow> string \<Rightarrow> string \<Rightarrow> bool \<Rightarrow> FileEntry" where
  "NewFileEntry L tstamp key val isTombstone =
     \<lparr>Crc = crc32_IEEE L (key @ val), Tstamp = tstamp,
      Ksz = of_nat (length key), ValueSz = of_nat (length val),
      Key = key, Value = val, IsTombstone = isTombstone\<rparr>"

definition DeserializeFileEntry :: "stdlib \<Rightarrow> byte list \<Rightarrow> error + FileEntry" where
  "DeserializeFileEntry L buffer =
     (case gob_Decode L buffer of None \<Rightarrow> Inl ErrGob | Some fe \<Rightarrow> Inr fe)"

text \<open>
  \<^verbatim>\<open>NewBistcaskEngine\<close>, at clock reading \<open>now\<close>. The data directory is created
  when missing; \<^verbatim>\<open>log.Fatalf\<close> ends the process, which is the result \<open>Fatal\<close>.
\<close>

definition NewBistcaskEngine :: "int \<Rightarrow> string \<Rightarrow> filesystem \<Rightarrow> error + (BitcaskEngine \<times> filesystem)" where
  "NewBistcaskEngine now directory fs =
     (case os_OpenFile fs (Join directory (segment_name now)) of
        Inl e \<Rightarrow> Inl (Fatal e)
      | Inr (newActiveFile, fs') \<Rightarrow>
          Inr (\<lparr>Keydir = Map.empty, ActiveFile = Some newActiveFile,
                ActiveDir = directory, MaxFileSize = 1 * 1024 * 1024\<rparr>, fs'))"

text \<open>\<^verbatim>\<open>Close\<close>: the returned error, if any, and the engine.\<close>

definition Close :: "BitcaskEngine \<Rightarrow> error option \<times> BitcaskEngine" where
  "Close be =
     (case ActiveFile be of
        None \<Rightarrow> (None, be)
      | Some f \<Rightarrow>
          (case File_Close f of
             Inl e \<Rightarrow> (Some e, be\<lparr>ActiveFile := None\<rparr>)
           | Inr _ \<Rightarrow> (None, be\<lparr>ActiveFile := None\<rparr>)))"

definition fetchFromDisk :: "stdlib \<Rightarrow> KeyDir \<Rightarrow> filesystem \<Rightarrow> error + FileEntry" where
  "fetchFromDisk L rcd fs =
     (case os_Open fs (FileID rcd) of
        Inl e \<Rightarrow> Inl (OpenFailed (FileID rcd) e)
      | Inr file \<Rightarrow>
          let payloadStartOffset = ValuePos rcd + 8;
              payloadLength = int (KdValueSz rcd) - 8
          in if payloadLength < 0 then Inl InvalidPayloadLength
             else (case File_ReadAt file (nat payloadLength) payloadStartOffset of
                     Inl e \<Rightarrow> Inl (ReadBufferFailed e)
                   | Inr buf \<Rightarrow>
                       (case DeserializeFileEntry L buf of
                          Inl e \<Rightarrow> Inl (DeserializeFailed e)
                        | Inr fileEntry \<Rightarrow> Inr fileEntry)))"

text \<open>
  \<^verbatim>\<open>Get\<close>: the result, with the engine and the file system after the call.
\<close>

definition Get :: "stdlib \<Rightarrow> string \<Rightarrow> BitcaskEngine \<Rightarrow> filesystem \<Rightarrow> (error + string) \<times> BitcaskEngine \<times> filesystem" where
  "Get L key be fs =
     (case Keydir be key of
        None \<Rightarrow> (Inl KeyNotFound, be, fs)
      | Some rcd \<Rightarrow>
          (case fetchFromDisk L rcd fs of
             Inl e \<Rightarrow> (Inl (FetchFailed e), be, fs)
           | Inr entry \<Rightarrow>
               if IsTombstone entry then (Inl (KeyDeleted key), be, fs)
               else (Inr (Value entry), be, fs)))"

text \<open>\<^verbatim>\<open>rollOverActiveFile\<close>, at clock reading \<open>now\<close>.\<close>

definition rollOverActiveFile :: "int \<Rightarrow> BitcaskEngine \<Rightarrow> filesystem \<Rightarrow> error option \<times> BitcaskEngine \<times> filesystem" where
  "rollOverActiveFile now be fs =
     (case (case ActiveFile be of
              None \<Rightarrow> Inr be
            | Some f \<Rightarrow>
                (case File_Close f of
                   Inl e \<Rightarrow> Inl (CloseOldFailed e)
                 | Inr f' \<Rightarrow> Inr (be\<lparr>ActiveFile := Some f'\<rparr>))) of
        Inl e \<Rightarrow> (Some e, be, fs)
      | Inr be1 \<Rightarrow>
          let activeFilePath = Join (ActiveDir be1) (segment_name now)
          in (case os_OpenFile fs activeFilePath of
                Inl e \<Rightarrow> (Some (OpenNewFailed activeFilePath e), be1, fs)
              | Inr (newActiveFile, fs') \<Rightarrow>
                  (None, be1\<lparr>ActiveFile := Some newActiveFile\<rparr>, fs')))"

text \<open>
  \<^verbatim>\<open>putFileEntry\<close>; \<open>now\<close> is the clock reading a rollover would take. The
  result comes with the engine and the file system as the call leaves them, also when it
  fails.
\<close>

definition putFileEntry :: "stdlib \<Rightarrow> int \<Rightarrow> FileEntry \<Rightarrow> BitcaskEngine \<Rightarrow> filesystem \<Rightarrow> (error + KeyDir) \<times> BitcaskEngine \<times> filesystem" where
  "putFileEntry L now fileEntry be fs =
     (case gob_Encode L fileEntry of
        None \<Rightarrow> (Inl (EncodeFailed ErrGob), be, fs)
      | Some serializedFileEntryBytes \<Rightarrow>
          let payloadLen = length serializedFileEntryBytes;
              lenBuf = PutUint64 (of_nat payloadLen);
              totalLen = int (8 + payloadLen)
          in (case File_Stat fs (ActiveFile be) of
                Inl e \<Rightarrow> (Inl (StatFailed e), be, fs)
              | Inr fsize \<Rightarrow>
                  (case (if fsize + totalLen > MaxFileSize be
                         then rollOverActiveFile now be fs else (None, be, fs)) of
                     (Some e, be1, fs1) \<Rightarrow> (Inl (RolloverFailed e), be1, fs1)
                   | (None, be1, fs1) \<Rightarrow>
                       (case ActiveFile be1 of
                          None \<Rightarrow> (Inl (SeekFailed ErrInvalid), be1, fs1)
                        | Some f \<Rightarrow>
                            (case File_Seek f of
                               Inl e \<Rightarrow> (Inl (SeekFailed e), be1, fs1)
                             | Inr offset \<Rightarrow>
                                 (case File_Write fs1 f lenBuf of
                                    Inl e \<Rightarrow> (Inl (WritePrefixFailed e), be1, fs1)
                                  | Inr (_, f2, fs2) \<Rightarrow>
                                      (case File_Write fs2 f2 serializedFileEntryBytes of
                                         Inl e \<Rightarrow>
                                           (Inl (WritePayloadFailed e),
                                            be1\<lparr>ActiveFile := Some f2\<rparr>, fs2)
                                       | Inr (nbytes, f3, fs3) \<Rightarrow>
                                           if nbytes \<noteq> payloadLen
                                           then (Inl (WriteSizeMismatch payloadLen nbytes),
                                                 be1\<lparr>ActiveFile := Some f3\<rparr>, fs3)
                                           else (Inr \<lparr>FileID = Name f3, KdValueSz = 8 + nbytes,
                                                      ValuePos = offset,
                                                      KdTstamp = Tstamp fileEntry\<rparr>,
                                                 be1\<lparr>ActiveFile := Some f3\<rparr>, fs3))))))))"

text \<open>
  \<^verbatim>\<open>Put\<close>: \<open>tstamp\<close> is the clock reading of \<^verbatim>\<open>NewFileEntry\<close>, \<open>now\<close> the
  one a rollover would take.
\<close>

definition Put :: "stdlib \<Rightarrow> int \<Rightarrow> int \<Rightarrow> string \<Rightarrow> string \<Rightarrow> BitcaskEngine \<Rightarrow> filesystem \<Rightarrow> error option \<times> BitcaskEngine \<times> filesystem" where
  "Put L tstamp now key val be fs =
     (case putFileEntry L now (NewFileEntry L tstamp key val False) be fs of
        (Inl e, be1, fs1) \<Rightarrow> (Some (InsertFailed e), be1, fs1)
      | (Inr keydirEntry, be1, fs1) \<Rightarrow>
          (None, be1\<lparr>Keydir := (Keydir be1)(key \<mapsto> keydirEntry)\<rparr>, fs1))"

definition Delete :: "stdlib \<Rightarrow> int \<Rightarrow> int \<Rightarrow> string \<Rightarrow> BitcaskEngine \<Rightarrow> filesystem \<Rightarrow> error option \<times> BitcaskEngine \<times> filesystem" where
  "Delete L tstamp now key be fs =
     (case Keydir be key of
        None \<Rightarrow> (Some (NotFoundForDeletion key), be, fs)
      | Some _ \<Rightarrow>
          (case putFileEntry L now (NewFileEntry L tstamp key [] True) be fs of
             (Inl e, be1, fs1) \<Rightarrow> (Some (PutTombstoneFailed e), be1, fs1)
           | (Inr _, be1, fs1) \<Rightarrow>
               (None, be1\<lparr>Keydir := (Keydir be1)(key := None)\<rparr>, fs1)))"

section \<open>Index rebuild\<close>

text \<open>
  The directory update of one decoded record in \<^verbatim>\<open>processOldFile\<close> (the
  \<^verbatim>\<open>if fe.IsTombstone\<close> statement): \<open>existing = None\<close> is \<^verbatim>\<open>!ok\<close>.
\<close>

definition applyRecord :: "path \<Rightarrow> int \<Rightarrow> nat \<Rightarrow> FileEntry \<Rightarrow> (string \<rightharpoonup> KeyDir) \<Rightarrow> (string \<rightharpoonup> KeyDir)" where
  "applyRecord filePath recordStartOffset recordTotalSize fe kd =
     (let take_it = (case kd (Key fe) of
                       None \<Rightarrow> True
                     | Some existingKeyDirEntry \<Rightarrow> Tstamp fe \<ge> KdTstamp existingKeyDirEntry)
      in if IsTombstone fe
         then (if take_it then kd(Key fe := None) else kd)
         else (if take_it
               then kd(Key fe \<mapsto> \<lparr>FileID = filePath, KdValueSz = recordTotalSize,
                                    ValuePos = recordStartOffset, KdTstamp = Tstamp fe\<rparr>)
               else kd))"

text \<open>
  The loop of \<^verbatim>\<open>processOldFile\<close> over the bytes that are left to read. The directory
  is updated in place, so a failure returns the directory as the records before it left it.
  \<^verbatim>\<open>io.ReadFull\<close> returns \<^verbatim>\<open>io.EOF\<close> when no byte is left and
  \<^verbatim>\<open>io.ErrUnexpectedEOF\<close> when some but too few are.
\<close>

function processRecords :: "stdlib \<Rightarrow> path \<Rightarrow> byte list \<Rightarrow> int \<Rightarrow> (string \<rightharpoonup> KeyDir) \<Rightarrow> error option \<times> (string \<rightharpoonup> KeyDir)" where
  "processRecords L filePath bytes currentOffset kd =
     (if bytes = [] then (None, kd)
      else if length bytes < 8 then (Some (ReadPrefixFailed ErrUnexpectedEOF), kd)
      else
        let payloadLen = unat (Uint64 (take 8 bytes));
            rest = drop 8 bytes
        in if length rest < payloadLen
           then (Some (ReadPayloadFailed (if rest = [] then EOF else ErrUnexpectedEOF)), kd)
           else (case DeserializeFileEntry L (take payloadLen rest) of
                   Inl e \<Rightarrow> (Some (DeserializeAtFailed e), kd)
                 | Inr fe \<Rightarrow>
                     processRecords L filePath (drop payloadLen rest)
                       (currentOffset + int (8 + payloadLen))
                       (applyRecord filePath currentOffset (8 + payloadLen) fe kd)))"
  by pat_completeness auto
termination
  by (relation "measure (\<lambda>(L, filePath, bytes, currentOffset, kd). length bytes)") auto

declare processRecords.simps [simp del]

definition processOldFile :: "stdlib \<Rightarrow> filesystem \<Rightarrow> path \<Rightarrow> (string \<rightharpoonup> KeyDir) \<Rightarrow> error option \<times> (string \<rightharpoonup> KeyDir)" where
  "processOldFile L fs filePath kd =
     (case os_Open fs filePath of
        Inl e \<Rightarrow> (Some (OpenFailed filePath e), kd)
      | Inr Dir \<Rightarrow> (Some (ReadPrefixFailed ErrIsDir), kd)
      | Inr (File bytes) \<Rightarrow> processRecords L filePath bytes 0 kd)"

text \<open>The comparison that \<^verbatim>\<open>BuildIndex\<close> hands to \<^verbatim>\<open>sort.Slice\<close>.\<close>

definition entry_less :: "string \<times> bool \<Rightarrow> string \<times> bool \<Rightarrow> bool" where
  "entry_less ei ej =
     (case (ParseInt (TrimSuffix (fst ei) ''.data''), ParseInt (TrimSuffix (fst ej) ''.data'')) of
        (Some tsI, Some tsJ) \<Rightarrow> tsI < tsJ
      | _ \<Rightarrow> fst ei < fst ej)"

text \<open>The \<^verbatim>\<open>for _, fileInfo := range directoryEntries\<close> loop of \<^verbatim>\<open>BuildIndex\<close>.\<close>

fun processEntries :: "stdlib \<Rightarrow> filesystem \<Rightarrow> string \<Rightarrow> (string \<times> bool) list \<Rightarrow> (string \<rightharpoonup> KeyDir) \<Rightarrow> error option \<times> (string \<rightharpoonup> KeyDir)" where
  "processEntries L fs dir [] kd = (None, kd)"
| "processEntries L fs dir (fileInfo # entries) kd =
     (if snd fileInfo \<or> \<not> HasSuffix (fst fileInfo) ''.data''
      then processEntries L fs dir entries kd
      else (case processOldFile L fs (Join dir (fst fileInfo)) kd of
              (Some e, kd') \<Rightarrow> (Some (ProcessFileFailed (fst fileInfo) e), kd')
            | (None, kd') \<Rightarrow> processEntries L fs dir entries kd'))"

definition BuildIndex :: "stdlib \<Rightarrow> BitcaskEngine \<Rightarrow> filesystem \<Rightarrow> error option \<times> BitcaskEngine" where
  "BuildIndex L be fs =
     (let directoryEntries = sort_Slice entry_less (os_ReadDir fs (ActiveDir be))
      in (case processEntries L fs (ActiveDir be) directoryEntries (Keydir be) of
            (err, kd) \<Rightarrow> (err, be\<lparr>Keydir := kd\<rparr>)))"

section \<open>Framing and a reference instance of the library\<close>

text \<open>
  A framed record as \<^verbatim>\<open>putFileEntry\<close> writes it: the 8-byte big-endian length of the
  payload, then the payload.
\<close>

definition framed :: "byte list \<Rightarrow> byte list" where
  "framed payload = PutUint64 (of_nat (length payload)) @ payload"

text \<open>
  A small length-tagged codec and a byte-sum checksum, to run the engine on concrete
  inputs: five 8-byte numbers (checksum, timestamp, key size, value size, key length), the
  tombstone flag, the key and the value.
\<close>

definition byte_of_char :: "char \<Rightarrow> byte" where
  "byte_of_char c = of_nat (of_char c)"

definition char_of_byte :: "byte \<Rightarrow> char" where
  "char_of_byte b = char_of (unat b)"

definition test_Encode :: "FileEntry \<Rightarrow> byte list option" where
  "test_Encode fe =
     Some (PutUint64 (ucast (Crc fe)) @ PutUint64 (word_of_int (Tstamp fe)) @
           PutUint64 (ucast (Ksz fe)) @ PutUint64 (ucast (ValueSz fe)) @
           PutUint64 (of_nat (length (Key fe))) @ [of_bool (IsTombstone fe)] @
           map byte_of_char (Key fe) @ map byte_of_char (Value fe))"

definition test_Decode :: "byte list \<Rightarrow> FileEntry option" where
  "test_Decode bs =
     (if length bs < 41 then None
      else let klen = unat (Uint64 (drop 32 bs))
           in if length bs < 41 + klen then None
              else Some \<lparr>Crc = ucast (Uint64 bs), Tstamp = sint (Uint64 (drop 8 bs)),
                         Ksz = ucast (Uint64 (drop 16 bs)),
                         ValueSz = ucast (Uint64 (drop 24 bs)),
                         Key = map char_of_byte (take klen (drop 41 bs)),
                         Value = map char_of_byte (drop (41 + klen) bs),
                         IsTombstone = (bs ! 40 \<noteq> 0)\<rparr>)"

definition test_lib :: stdlib where
  "test_lib = \<lparr>gob_Encode = test_Encode, gob_Decode = test_Decode,
                crc32_IEEE = (\<lambda>s. of_nat (sum_list (map of_char s)))\<rparr>"

text \<open>
  The engine and the file system that \<^verbatim>\<open>NewBistcaskEngine("d")\<close> returns at second
  100 on an empty data directory, and the state after \<^verbatim>\<open>Put("a", "1")\<close> in that second.
\<close>

definition engine0 :: BitcaskEngine where
  "engine0 = \<lparr>Keydir = Map.empty,
               ActiveFile = Some \<lparr>Name = Join ''d'' ''100.data'', Offset = 0, Closed = False\<rparr>,
               ActiveDir = ''d'', MaxFileSize = 1048576\<rparr>"

definition fs0 :: filesystem where
  "fs0 = [(Join ''d'' ''100.data'', File [])]"

definition after_put_a :: "error option \<times> BitcaskEngine \<times> filesystem" where
  "after_put_a = Put test_lib 100 100 ''a'' ''1'' engine0 fs0"

text \<open>The payload of the record that \<^verbatim>\<open>Put("a", "1")\<close> writes at second 100.\<close>

definition bytes_a1 :: "byte list" where
  "bytes_a1 = (case test_Encode (NewFileEntry test_lib 100 ''a'' ''1'' False) of
                 Some b \<Rightarrow> b | None \<Rightarrow> [])"

text \<open>The payload of the tombstone that \<^verbatim>\<open>Delete("a")\<close> writes at second 101.\<close>

definition tomb_a :: "byte list" where
  "tomb_a = (case test_Encode (NewFileEntry test_lib 101 ''a'' [] True) of
               Some b \<Rightarrow> b | None \<Rightarrow> [])"

section \<open>Basic facts\<close>

lemma segment_name_100: "segment_name 100 = ''100.data''"
  by code_simp

lemma engine0_is_fresh: "NewBistcaskEngine 100 ''d'' [] = Inr (engine0, fs0)"
  by (simp add: NewBistcaskEngine_def os_OpenFile_def engine0_def fs0_def segment_name_100)

lemma length_PutUint64 [simp]: "length (PutUint64 v) = 8"
  by (simp add: PutUint64_def)

lemma length_framed [simp]: "length (framed bs) = 8 + length bs"
  by (simp add: framed_def)

section \<open>Deleting an absent key\<close>

text \<open>
  C8: for every key absent from the in-memory directory at call time, \<open>Delete\<close> returns
  an error (it is not a no-op that succeeds) and leaves the engine, hence the directory,
  and every file as they were.
\<close>

theorem delete_absent_key_fails:
  "Keydir be key = None \<Longrightarrow>
     Delete L tstamp now key be fs = (Some (NotFoundForDeletion key), be, fs)"
  by (simp add: Delete_def)

theorem delete_absent_key_fails_witness:
  "Keydir engine0 ''k'' = None \<and>
   Delete test_lib 100 100 ''k'' engine0 fs0 = (Some (NotFoundForDeletion ''k''), engine0, fs0)"
  using delete_absent_key_fails [of engine0 "''k''" test_lib 100 100 fs0]
  by (simp add: engine0_def)

section \<open>Reading changes nothing\<close>

text \<open>
  C10: \<open>Get\<close> never mutates state: whatever it returns, a value or any error, the
  engine (key directory, active file handle) and the file system (the active file's content
  and every segment file) after the call are the ones before it.
\<close>

theorem get_changes_nothing:
  "snd (Get L key be fs) = (be, fs)"
  by (simp add: Get_def split: option.splits sum.splits)

section \<open>Close\<close>

text \<open>
  C9, as the claim states it, fails: after a successful \<open>Close\<close> a \<open>Get\<close> of a key that
  is in the directory still succeeds. Here the engine is opened at second 100, stores
  \<open>a \<mapsto> 1\<close> and is closed; \<open>Get\<close> then returns the value.
\<close>

theorem get_after_close_counterexample:
  "fst (Close (fst (snd after_put_a))) = None \<and>
   ActiveFile (snd (Close (fst (snd after_put_a)))) = None \<and>
   fst (Get test_lib ''a'' (snd (Close (fst (snd after_put_a)))) (snd (snd after_put_a))) = Inr ''1''"
  by code_simp

text \<open>
  C9, amended: \<open>Close\<close> is idempotent (a second \<open>Close\<close> returns no error and changes
  nothing), and after a \<open>Close\<close> every \<open>Put\<close> and every \<open>Delete\<close> returns an error and
  changes neither the engine nor the files; \<open>Get\<close> has no check for a closed engine and
  returns what it returned before the \<open>Close\<close>.
\<close>

theorem close_then_operations:
  "Close be = (err, be') \<Longrightarrow>
     Close be' = (None, be') \<and>
     (\<exists>e. Put L tstamp now key val be' fs = (Some e, be', fs)) \<and>
     (\<exists>e. Delete L tstamp now key be' fs = (Some e, be', fs)) \<and>
     Get L key be' fs = (fst (Get L key be fs), be', fs)"
proof -
  assume c: "Close be = (err, be')"
  then have nil: "ActiveFile be' = None" and kd: "Keydir be' = Keydir be"
    by (auto simp: Close_def split: option.splits sum.splits)
  have 1: "Close be' = (None, be')" using nil by (simp add: Close_def)
  have pf: "\<And>fe. \<exists>e. putFileEntry L now fe be' fs = (Inl e, be', fs)"
    using nil by (simp add: putFileEntry_def File_Stat_def split: option.splits)
  have 2: "\<exists>e. Put L tstamp now key val be' fs = (Some e, be', fs)"
    using pf [of "NewFileEntry L tstamp key val False"] by (auto simp: Put_def)
  have 3: "\<exists>e. Delete L tstamp now key be' fs = (Some e, be', fs)"
    using pf [of "NewFileEntry L tstamp key [] True"]
    by (cases "Keydir be' key") (auto simp: Delete_def)
  have 4: "Get L key be' fs = (fst (Get L key be fs), be', fs)"
    using kd by (simp add: Get_def split: option.splits sum.splits)
  from 1 2 3 4 show ?thesis by blast
qed

theorem close_then_operations_witness:
  "Close (fst (snd after_put_a)) = (None, snd (Close (fst (snd after_put_a)))) \<and>
   Close (snd (Close (fst (snd after_put_a)))) = (None, snd (Close (fst (snd after_put_a)))) \<and>
   fst (Put test_lib 101 101 ''b'' ''2'' (snd (Close (fst (snd after_put_a)))) (snd (snd after_put_a))) \<noteq> None \<and>
   fst (Delete test_lib 101 101 ''a'' (snd (Close (fst (snd after_put_a)))) (snd (snd after_put_a))) \<noteq> None \<and>
   fst (Get test_lib ''a'' (snd (Close (fst (snd after_put_a)))) (snd (snd after_put_a))) = Inr ''1''"
proof -
  let ?be = "fst (snd after_put_a)"
  let ?fs = "snd (snd after_put_a)"
  have c: "Close ?be = (fst (Close ?be), snd (Close ?be))" by simp
  have e: "fst (Close ?be) = None" by code_simp
  have g: "fst (Get test_lib ''a'' ?be ?fs) = Inr ''1''" by code_simp
  from close_then_operations [OF c, of test_lib 101 101 "''b''" "''2''" ?fs]
       close_then_operations [OF c, of test_lib 101 101 "''a''" "''2''" ?fs] e g
  show ?thesis by (auto simp: prod_eq_iff)
qed

section \<open>The length prefix\<close>

lemma bit_byte_at:
  fixes v :: "64 word"
  assumes "n < 64"
  shows "bit (push_bit k (ucast (ucast (drop_bit k v) :: byte) :: 64 word)) n
           = (k \<le> n \<and> n < k + 8 \<and> bit v n)"
  using assms by (auto simp add: bit_simps)

lemma bit_byte_0:
  fixes v :: "64 word"
  assumes "n < 64"
  shows "bit (ucast (ucast v :: byte) :: 64 word) n = (n < 8 \<and> bit v n)"
  using assms by (auto simp add: bit_simps)

lemma Uint64_PutUint64: "Uint64 (PutUint64 v @ rest) = v"
proof (rule bit_word_eqI)
  fix n assume "n < LENGTH(64)"
  then have n: "n < 64" by simp
  have "bit (Uint64 (PutUint64 v @ rest)) n =
     (n < 8 \<and> bit v n \<or> (8 \<le> n \<and> n < 8 + 8 \<and> bit v n) \<or> (16 \<le> n \<and> n < 16 + 8 \<and> bit v n)
      \<or> (24 \<le> n \<and> n < 24 + 8 \<and> bit v n) \<or> (32 \<le> n \<and> n < 32 + 8 \<and> bit v n)
      \<or> (40 \<le> n \<and> n < 40 + 8 \<and> bit v n) \<or> (48 \<le> n \<and> n < 48 + 8 \<and> bit v n)
      \<or> (56 \<le> n \<and> n < 56 + 8 \<and> bit v n))"
    unfolding PutUint64_def
    by (simp only: append_Cons Uint64.simps bit_or_iff bit_byte_at[OF n] bit_byte_0[OF n])
  also have "\<dots> = bit v n" using n by (cases "bit v n"; simp) arith
  finally show "bit (Uint64 (PutUint64 v @ rest)) n = bit v n" .
qed

lemma take_8_framed: "take 8 (framed p @ rest) = PutUint64 (of_nat (length p))"
  by (simp add: framed_def)

lemma drop_8_framed: "drop 8 (framed p @ rest) = p @ rest"
  by (simp add: framed_def)

lemma unat_of_nat_64: "n < 2 ^ 64 \<Longrightarrow> unat (of_nat n :: 64 word) = n"
  by (simp add: unat_of_nat take_bit_nat_eq_self)

lemma processRecords_Nil: "processRecords L filePath [] off kd = (None, kd)"
  by (simp add: processRecords.simps)

section \<open>One record of the index rebuild\<close>

text \<open>
  C3: during the index rebuild, a framed record at offset \<open>off\<close> of file \<open>filePath\<close> whose
  payload decodes to \<open>fe\<close>, with key \<open>K\<close> and timestamp \<open>T\<close>, is applied as follows,
  and the loop goes on behind it at offset \<open>off + 8 + L\<close>: if \<open>K\<close> has no directory entry
  or the existing entry's timestamp is at most \<open>T\<close>, a tombstone removes \<open>K\<close> and any other
  record stores the locator (\<open>filePath\<close>, \<open>off\<close>, \<open>8 + L\<close>, \<open>T\<close>) for \<open>K\<close>; if the
  existing entry's timestamp is strictly greater than \<open>T\<close>, the directory is unchanged.
\<close>

theorem index_record_step:
  assumes "gob_Decode L payload = Some fe" and "length payload < 2 ^ 64"
  shows "processRecords L filePath (framed payload @ rest) off kd =
         processRecords L filePath rest (off + int (8 + length payload))
           (if (case kd (Key fe) of None \<Rightarrow> True
                | Some existing \<Rightarrow> KdTstamp existing \<le> Tstamp fe)
            then (if IsTombstone fe then kd(Key fe := None)
                  else kd(Key fe \<mapsto> \<lparr>FileID = filePath, KdValueSz = 8 + length payload,
                                       ValuePos = off, KdTstamp = Tstamp fe\<rparr>))
            else kd)"
proof -
  have ne: "framed payload @ rest \<noteq> []" by (simp add: framed_def PutUint64_def)
  have len: "\<not> length (framed payload @ rest) < 8" by simp
  have "Uint64 (PutUint64 (of_nat (length payload))) = of_nat (length payload)"
    using Uint64_PutUint64 [of "of_nat (length payload)" "[]"] by simp
  then have pl: "unat (Uint64 (take 8 (framed payload @ rest))) = length payload"
    using assms(2) by (simp only: take_8_framed unat_of_nat_64)
  show ?thesis
    apply (subst processRecords.simps)
    apply (simp only: ne len if_False Let_def pl drop_8_framed)
    apply (simp add: DeserializeFileEntry_def assms(1) applyRecord_def)
    done
qed

lemma decode_bytes_a1:
  "gob_Decode test_lib bytes_a1 = Some (NewFileEntry test_lib 100 ''a'' ''1'' False)"
  by code_simp

theorem index_record_step_witness:
  "gob_Decode test_lib bytes_a1 = Some (NewFileEntry test_lib 100 ''a'' ''1'' False) \<and>
   length bytes_a1 < 2 ^ 64 \<and>
   processRecords test_lib (Join ''d'' ''100.data'') (framed bytes_a1) 0 Map.empty =
     (None, [''a'' \<mapsto> \<lparr>FileID = Join ''d'' ''100.data'', KdValueSz = 51, ValuePos = 0,
                          KdTstamp = 100\<rparr>])"
proof -
  have l: "length bytes_a1 = 43" by code_simp
  then have l2: "length bytes_a1 < 2 ^ 64" by simp
  from index_record_step [OF decode_bytes_a1 l2, of "Join ''d'' ''100.data''" "[]" 0 Map.empty]
  show ?thesis using l decode_bytes_a1
    by (simp add: processRecords_Nil NewFileEntry_def)
qed

section \<open>Appending a record\<close>

text \<open>
  What \<open>putFileEntry\<close> returns on an open engine, by the size check and by what the
  rollover finds under the new segment's name.
\<close>

lemma update_fresh_append:
  "map_of fs k = None \<Longrightarrow> AList.update k v (fs @ [(k, v0)]) = fs @ [(k, v)]"
  by (induction fs) (auto split: if_splits)

lemma putFileEntry_append:
  assumes "gob_Encode L fe = Some bs"
    and "ActiveFile be = Some f" and "\<not> Closed f"
    and "map_of fs (Name f) = Some (File old)"
    and "int (length old) + int (8 + length bs) \<le> MaxFileSize be"
  shows "putFileEntry L now fe be fs =
           (Inr \<lparr>FileID = Name f, KdValueSz = 8 + length bs, ValuePos = int (Offset f),
                  KdTstamp = Tstamp fe\<rparr>,
            be\<lparr>ActiveFile := Some (f\<lparr>Offset := length old + (8 + length bs)\<rparr>)\<rparr>,
            AList.update (Name f) (File (old @ framed bs)) fs)"
  using assms
  by (simp add: putFileEntry_def File_Stat_def File_Seek_def File_Write_def
      AList.update_conv' AList.update_last framed_def Let_def)

lemma putFileEntry_rollover_new:
  assumes "gob_Encode L fe = Some bs"
    and "ActiveFile be = Some f" and "\<not> Closed f"
    and "map_of fs (Name f) = Some (File old)"
    and "int (length old) + int (8 + length bs) > MaxFileSize be"
    and "map_of fs (Join (ActiveDir be) (segment_name now)) = None"
  shows "putFileEntry L now fe be fs =
           (Inr \<lparr>FileID = Join (ActiveDir be) (segment_name now), KdValueSz = 8 + length bs,
                  ValuePos = 0, KdTstamp = Tstamp fe\<rparr>,
            be\<lparr>ActiveFile := Some \<lparr>Name = Join (ActiveDir be) (segment_name now),
                                     Offset = 8 + length bs, Closed = False\<rparr>\<rparr>,
            fs @ [(Join (ActiveDir be) (segment_name now), File (framed bs))])"
  using assms
  by (simp add: putFileEntry_def File_Stat_def File_Seek_def File_Write_def File_Close_def
      rollOverActiveFile_def os_OpenFile_def
      AList.update_conv' AList.update_last framed_def Let_def update_fresh_append map_add_def)

lemma putFileEntry_rollover_existing:
  assumes "gob_Encode L fe = Some bs"
    and "ActiveFile be = Some f" and "\<not> Closed f"
    and "map_of fs (Name f) = Some (File old)"
    and "int (length old) + int (8 + length bs) > MaxFileSize be"
    and "map_of fs (Join (ActiveDir be) (segment_name now)) = Some (File old')"
  shows "putFileEntry L now fe be fs =
           (Inr \<lparr>FileID = Join (ActiveDir be) (segment_name now), KdValueSz = 8 + length bs,
                  ValuePos = 0, KdTstamp = Tstamp fe\<rparr>,
            be\<lparr>ActiveFile := Some \<lparr>Name = Join (ActiveDir be) (segment_name now),
                                     Offset = length old' + (8 + length bs), Closed = False\<rparr>\<rparr>,
            AList.update (Join (ActiveDir be) (segment_name now)) (File (old' @ framed bs)) fs)"
  using assms
  by (simp add: putFileEntry_def File_Stat_def File_Seek_def File_Write_def File_Close_def
      rollOverActiveFile_def os_OpenFile_def
      AList.update_conv' AList.update_last framed_def Let_def)

lemma putFileEntry_rollover_dir:
  assumes "gob_Encode L fe = Some bs"
    and "ActiveFile be = Some f" and "\<not> Closed f"
    and "map_of fs (Name f) = Some (File old)"
    and "int (length old) + int (8 + length bs) > MaxFileSize be"
    and "map_of fs (Join (ActiveDir be) (segment_name now)) = Some Dir"
  shows "putFileEntry L now fe be fs =
           (Inl (RolloverFailed (OpenNewFailed (Join (ActiveDir be) (segment_name now)) ErrIsDir)),
            be\<lparr>ActiveFile := Some (f\<lparr>Closed := True\<rparr>)\<rparr>, fs)"
  using assms
  by (simp add: putFileEntry_def File_Stat_def File_Close_def
      rollOverActiveFile_def os_OpenFile_def Let_def)

text \<open>The state a successful append leaves.\<close>

lemma putFileEntry_success:
  assumes "putFileEntry L now fe be fs = (Inr kde, be1, fs1)"
  shows "\<exists>f c. ActiveFile be1 = Some f \<and> \<not> Closed f \<and> map_of fs1 (Name f) = Some (File c)
           \<and> FileID kde = Name f
           \<and> Keydir be1 = Keydir be \<and> ActiveDir be1 = ActiveDir be
           \<and> MaxFileSize be1 = MaxFileSize be"
proof -
  from assms obtain bs where enc: "gob_Encode L fe = Some bs"
    by (cases "gob_Encode L fe") (auto simp: putFileEntry_def)
  from assms enc obtain f where af: "ActiveFile be = Some f"
    by (cases "ActiveFile be") (auto simp: putFileEntry_def File_Stat_def)
  from assms enc af have nc: "\<not> Closed f"
    by (auto simp: putFileEntry_def File_Stat_def split: if_splits)
  from assms enc af nc obtain old where old: "map_of fs (Name f) = Some (File old)"
    by (auto simp: putFileEntry_def File_Stat_def split: option.splits node.splits)
  show ?thesis
  proof (cases "int (length old) + int (8 + length bs) \<le> MaxFileSize be")
    case True
    from putFileEntry_append [OF enc af nc old True, of now] assms nc
    show ?thesis by (auto simp: AList.update_conv')
  next
    case False
    then have big: "int (length old) + int (8 + length bs) > MaxFileSize be" by simp
    show ?thesis
    proof (cases "map_of fs (Join (ActiveDir be) (segment_name now))")
      case None
      from putFileEntry_rollover_new [OF enc af nc old big None] assms None
      show ?thesis by (auto simp: map_add_def)
    next
      case (Some nd)
      show ?thesis
      proof (cases nd)
        case Dir
        with putFileEntry_rollover_dir [OF enc af nc old big] Some assms
        show ?thesis by simp
      next
        case (File old')
        with putFileEntry_rollover_existing [OF enc af nc old big] Some assms
        show ?thesis by (auto simp: AList.update_conv')
      qed
    qed
  qed
qed

text \<open>An append on an open engine succeeds unless the rollover hits a directory.\<close>

lemma putFileEntry_total:
  assumes enc: "gob_Encode L fe = Some bs"
    and af: "ActiveFile be = Some f" and nc: "\<not> Closed f"
    and old: "map_of fs (Name f) = Some (File old)"
    and nodir: "map_of fs (Join (ActiveDir be) (segment_name now)) \<noteq> Some Dir"
  shows "\<exists>kde be1 fs1 f1 c. putFileEntry L now fe be fs = (Inr kde, be1, fs1)
           \<and> Keydir be1 = Keydir be
           \<and> ActiveFile be1 = Some f1 \<and> map_of fs1 (Name f1) = Some (File (c @ framed bs))"
proof (cases "int (length old) + int (8 + length bs) \<le> MaxFileSize be")
  case True
  from putFileEntry_append [OF enc af nc old True, of now]
  show ?thesis by (auto simp: AList.update_conv')
next
  case False
  then have big: "int (length old) + int (8 + length bs) > MaxFileSize be" by simp
  show ?thesis
  proof (cases "map_of fs (Join (ActiveDir be) (segment_name now))")
    case None
    let ?p = "Join (ActiveDir be) (segment_name now)"
    let ?h = "\<lparr>Name = ?p, Offset = 8 + length bs, Closed = False\<rparr>"
    let ?B = "be\<lparr>ActiveFile := Some ?h\<rparr>"
    let ?F = "fs @ [(?p, File (framed bs))]"
    have k: "Keydir ?B = Keydir be" and a: "ActiveFile ?B = Some ?h" by simp_all
    have m: "map_of ?F (Name ?h) = Some (File ([] @ framed bs))"
      using None by (simp add: map_add_def)
    from putFileEntry_rollover_new [OF enc af nc old big None] k a m
    show ?thesis by blast
  next
    case (Some nd)
    with nodir obtain old' where "nd = File old'" by (cases nd) auto
    with putFileEntry_rollover_existing [OF enc af nc old big] Some
    show ?thesis by (auto simp: AList.update_conv')
  qed
qed

section \<open>Put, delete, get\<close>

text \<open>
  C7: after a \<open>Put\<close> of \<open>key\<close> that succeeded, \<open>Delete\<close> of \<open>key\<close> succeeds: it
  appends the tombstone's framed record to the active file and removes the key's directory
  entry, and a \<open>Get\<close> of \<open>key\<close> then fails with the not-found error. The tombstone
  encodes to \<open>tomb\<close>, and input and output do not fail: the segment name a rollover of
  the delete would open is not a directory.
\<close>

theorem put_delete_get:
  assumes put: "Put L t1 n1 key val be fs = (None, be1, fs1)"
    and enc: "gob_Encode L (NewFileEntry L t2 key [] True) = Some tomb"
    and nodir: "map_of fs1 (Join (ActiveDir be1) (segment_name n2)) \<noteq> Some Dir"
  shows "\<exists>be2 fs2 f2 c.
           Delete L t2 n2 key be1 fs1 = (None, be2, fs2) \<and>
           Keydir be2 key = None \<and>
           ActiveFile be2 = Some f2 \<and> map_of fs2 (Name f2) = Some (File (c @ framed tomb)) \<and>
           Get L key be2 fs2 = (Inl KeyNotFound, be2, fs2)"
proof -
  from put obtain kde be' where
    pf: "putFileEntry L n1 (NewFileEntry L t1 key val False) be fs = (Inr kde, be', fs1)"
    and be1: "be1 = be'\<lparr>Keydir := (Keydir be')(key \<mapsto> kde)\<rparr>"
    by (auto simp: Put_def split: prod.splits sum.splits)
  from putFileEntry_success [OF pf] be1 obtain f c where
    af: "ActiveFile be1 = Some f" and nc: "\<not> Closed f"
    and old: "map_of fs1 (Name f) = Some (File c)"
    by auto
  have present: "Keydir be1 key = Some kde" using be1 by simp
  from putFileEntry_total [OF enc af nc old nodir] obtain kde2 be2 fs2 f2 c2 where
    d: "putFileEntry L n2 (NewFileEntry L t2 key [] True) be1 fs1 = (Inr kde2, be2, fs2)"
    and f2: "ActiveFile be2 = Some f2" "map_of fs2 (Name f2) = Some (File (c2 @ framed tomb))"
    by blast
  let ?be = "be2\<lparr>Keydir := (Keydir be2)(key := None)\<rparr>"
  have "Delete L t2 n2 key be1 fs1 = (None, ?be, fs2)"
    using present d by (simp add: Delete_def)
  moreover have "Get L key ?be fs2 = (Inl KeyNotFound, ?be, fs2)"
    by (simp add: Get_def)
  ultimately show ?thesis using f2 by auto
qed

theorem put_delete_get_witness:
  "Put test_lib 100 100 ''a'' ''1'' engine0 fs0 = (None, fst (snd after_put_a), snd (snd after_put_a)) \<and>
   gob_Encode test_lib (NewFileEntry test_lib 101 ''a'' [] True) = Some tomb_a \<and>
   map_of (snd (snd after_put_a)) (Join (ActiveDir (fst (snd after_put_a))) (segment_name 101)) \<noteq> Some Dir \<and>
   fst (Delete test_lib 101 101 ''a'' (fst (snd after_put_a)) (snd (snd after_put_a))) = None \<and>
   Keydir (fst (snd (Delete test_lib 101 101 ''a'' (fst (snd after_put_a)) (snd (snd after_put_a))))) ''a'' = None \<and>
   fst (Get test_lib ''a''
          (fst (snd (Delete test_lib 101 101 ''a'' (fst (snd after_put_a)) (snd (snd after_put_a)))))
          (snd (snd (Delete test_lib 101 101 ''a'' (fst (snd after_put_a)) (snd (snd after_put_a))))))
     = Inl KeyNotFound"
proof -
  have ok: "fst after_put_a = None" by code_simp
  have p: "Put test_lib 100 100 ''a'' ''1'' engine0 fs0 =
             (None, fst (snd after_put_a), snd (snd after_put_a))"
    using ok by (simp add: after_put_a_def prod_eq_iff)
  have e: "gob_Encode test_lib (NewFileEntry test_lib 101 ''a'' [] True) = Some tomb_a"
    by code_simp
  have d: "map_of (snd (snd after_put_a))
             (Join (ActiveDir (fst (snd after_put_a))) (segment_name 101)) \<noteq> Some Dir"
    by code_simp
  from put_delete_get [OF p e d] p e d show ?thesis by auto
qed

end
